theory Spec2Isabelle
  imports Complex_Main
begin

section \<open>The solar system block (src/block.tsx)\<close>

text \<open>
  The component tree of \<^verbatim>\<open>block.tsx\<close> is embedded as follows.
  \<^item> JavaScript numbers are modelled as exact reals: IEEE rounding is not part of the model.
  \<^item> The JSX a component returns is a tree of scene nodes. A node carries the \<^verbatim>\<open>ref\<close>
    attribute it was written with; the mounted three.js objects are the same tree, with
    the rotations the frame callbacks have written. Attributes the JSX leaves out take
    the three.js defaults (position and rotation \<open>(0, 0, 0)\<close>).
  \<^item> A frame callback \<^verbatim>\<open>if (r.current) r.current.rotation.y = ...\<close> updates the node
    that carries the ref \<open>r\<close>, and nothing when no node carries it.
  \<^item> React state, the timer table of the browser and the posted messages are explicit
    state; user input, rendered frames, milliseconds and unmounting are events.
\<close>

subsection \<open>Scene nodes\<close>

type_synonym vec3 = "real \<times> real \<times> real"

datatype ref_name = sunRef | planetRef | meshRef | ringsRef

datatype geometry = sphereGeometry real nat nat | ringGeometry real real nat

datatype side = BackSide

text \<open>Materials: colour, the \<^verbatim>\<open>transparent\<close> flag, \<^verbatim>\<open>opacity\<close> and \<^verbatim>\<open>side\<close> where given.\<close>

datatype material =
    meshBasicMaterial string bool "real option" "side option"
  | meshStandardMaterial string bool "real option"

text \<open>
  \<open>Group ref rotation children\<close>, \<open>Mesh ref position rotation geometry material children\<close>
  and \<open>Html distanceFactor fontSize marginTop text\<close> (the label; \<open>marginTop\<close> in pixels; the
  style entries every label shares, white, bold and centred, are left out).
\<close>

datatype node =
    Group "ref_name option" vec3 "node list"
  | Mesh "ref_name option" vec3 vec3 geometry material "node list"
  | Html real string real string

fun rotation_y :: "node \<Rightarrow> real" where
  "rotation_y (Group r (x, y, z) cs) = y"
| "rotation_y (Mesh r p (x, y, z) g m cs) = y"
| "rotation_y (Html d f s t) = 0"

fun first_some :: "'a option list \<Rightarrow> 'a option" where
  "first_some [] = None"
| "first_some (None # xs) = first_some xs"
| "first_some (Some x # xs) = Some x"

text \<open>\<open>find_ref r n\<close> is \<^verbatim>\<open>r.current\<close>: the node of the tree \<open>n\<close> that carries the ref \<open>r\<close>.\<close>

fun find_ref :: "ref_name \<Rightarrow> node \<Rightarrow> node option" where
  "find_ref r (Group ref rot cs) =
     (if ref = Some r then Some (Group ref rot cs) else first_some (map (find_ref r) cs))"
| "find_ref r (Mesh ref p rot g m cs) =
     (if ref = Some r then Some (Mesh ref p rot g m cs) else first_some (map (find_ref r) cs))"
| "find_ref r (Html d f s t) = None"

text \<open>
  \<open>update_ref r f n\<close> is \<^verbatim>\<open>if (r.current) r.current.rotation.y = f(r.current.rotation.y)\<close>.
\<close>

fun update_ref :: "ref_name \<Rightarrow> (real \<Rightarrow> real) \<Rightarrow> node \<Rightarrow> node" where
  "update_ref r f (Group ref (x, y, z) cs) =
     Group ref (if ref = Some r then (x, f y, z) else (x, y, z)) (map (update_ref r f) cs)"
| "update_ref r f (Mesh ref p (x, y, z) g m cs) =
     Mesh ref p (if ref = Some r then (x, f y, z) else (x, y, z)) g m (map (update_ref r f) cs)"
| "update_ref r f (Html d f' s t) = Html d f' s t"

definition ref_rotation_y :: "ref_name \<Rightarrow> node \<Rightarrow> real option" where
  "ref_rotation_y r n = map_option rotation_y (find_ref r n)"

subsection \<open>The planet table\<close>

record PlanetProps =
  name :: string
  size' :: real
  distance :: real
  color :: string
  speed :: real

definition planetData :: "PlanetProps list" where
  "planetData =
    [\<lparr>name = ''Mercury'', size' = 0.1, distance = 2, color = ''#8C7853'', speed = 0.02\<rparr>,
     \<lparr>name = ''Venus'', size' = 0.15, distance = 3, color = ''#FFC649'', speed = 0.015\<rparr>,
     \<lparr>name = ''Earth'', size' = 0.16, distance = 4, color = ''#6B93D6'', speed = 0.01\<rparr>,
     \<lparr>name = ''Mars'', size' = 0.12, distance = 5, color = ''#CD5C5C'', speed = 0.008\<rparr>,
     \<lparr>name = ''Jupiter'', size' = 0.5, distance = 7, color = ''#D8CA9D'', speed = 0.005\<rparr>,
     \<lparr>name = ''Saturn'', size' = 0.4, distance = 9, color = ''#FAD5A5'', speed = 0.004\<rparr>,
     \<lparr>name = ''Uranus'', size' = 0.25, distance = 11, color = ''#4FD0E7'', speed = 0.003\<rparr>,
     \<lparr>name = ''Neptune'', size' = 0.24, distance = 13, color = ''#4B70DD'', speed = 0.002\<rparr>]"

subsection \<open>Sun, Planet and SaturnRings\<close>

text \<open>Each component is the JSX it returns and the frame callback it registers.\<close>

definition Sun :: node where
  "Sun = Mesh (Some sunRef) (0, 0, 0) (0, 0, 0) (sphereGeometry 0.8 32 32)
           (meshBasicMaterial ''#FDB813'' False None None)
           [Html 15 ''12px'' (- 40) ''Sun'']"

definition Sun_useFrame :: "node \<Rightarrow> node" where
  "Sun_useFrame n = update_ref sunRef (\<lambda>y. y + 0.01) n"

definition Planet :: "PlanetProps \<Rightarrow> node" where
  "Planet p =
     Group (Some planetRef) (0, 0, 0)
       [Mesh (Some meshRef) (distance p, 0, 0) (0, 0, 0) (sphereGeometry (size' p) 16 16)
          (meshStandardMaterial (color p) False None)
          [Html 15 ''10px'' (- size' p * 50) (name p)],
        Mesh None (0, 0, 0) (pi / 2, 0, 0)
          (ringGeometry (distance p - 0.01) (distance p + 0.01) 64)
          (meshBasicMaterial ''#333333'' True (Some 0.3) None) []]"

text \<open>The callback takes the clock's elapsed time; \<open>speed p\<close> is the prop of the last render.\<close>

definition Planet_useFrame :: "PlanetProps \<Rightarrow> real \<Rightarrow> node \<Rightarrow> node" where
  "Planet_useFrame p elapsed n =
     update_ref meshRef (\<lambda>y. y + 0.02) (update_ref planetRef (\<lambda>y. elapsed * speed p) n)"

definition SaturnRings :: "real \<Rightarrow> node" where
  "SaturnRings d =
     Group (Some ringsRef) (0, 0, 0)
       [Mesh None (d, 0, 0) (pi / 2, 0, 0) (ringGeometry 0.5 0.7 32)
          (meshStandardMaterial ''#FAD5A5'' True (Some 0.7)) []]"

definition SaturnRings_useFrame :: "real \<Rightarrow> node \<Rightarrow> node" where
  "SaturnRings_useFrame elapsed n = update_ref ringsRef (\<lambda>y. elapsed * 0.004) n"

text \<open>The orbit line of a planet: the second child of its group, the mesh with no ref.\<close>

fun orbit_line :: "node \<Rightarrow> node option" where
  "orbit_line (Group r rot [body, orbit]) = Some orbit"
| "orbit_line n = None"

subsection \<open>What Block renders inside the canvas\<close>

datatype element =
    ambientLight real
  | pointLight vec3 real string
  | SunE
  | Fragment string "element list"
  | PlanetE PlanetProps
  | SaturnRingsE real
  | MeshE node
  | OrbitControls bool bool bool real real bool

record view_state =
  animationSpeed :: real
  showOrbits :: bool

text \<open>
  One fragment per row of the table, keyed by the planet's name. The child
  \<^verbatim>\<open>planet.name === 'Saturn' && <SaturnRings .../>\<close> is \<^verbatim>\<open>false\<close> for the other rows, which
  React renders as nothing: the fragment then has the planet as its only child.
\<close>

definition planet_fragment :: "real \<Rightarrow> PlanetProps \<Rightarrow> element" where
  "planet_fragment animSpeed planet =
     Fragment (name planet)
       (PlanetE \<lparr>name = name planet, size' = size' planet, distance = distance planet,
                 color = color planet, speed = speed planet * animSpeed\<rparr>
        # (if name planet = ''Saturn'' then [SaturnRingsE (distance planet)] else []))"

definition Block_canvas :: "view_state \<Rightarrow> element list" where
  "Block_canvas st =
     [ambientLight 0.2,
      pointLight (0, 0, 0) 2 ''#FDB813'',
      pointLight (10, 10, 10) 0.5 ''white'',
      SunE]
     @ map (planet_fragment (animationSpeed st)) planetData
     @ [MeshE (Mesh None (0, 0, 0) (0, 0, 0) (sphereGeometry 100 32 32)
                (meshBasicMaterial ''#000033'' True (Some 0.8) (Some BackSide)) []),
        OrbitControls True True True 5 50 False]"

subsection \<open>Mounted instances\<close>

text \<open>
  A mounted component instance holds the props of its last render (the values its frame
  callback closes over) and its three.js objects. Elements that register no frame
  callback are kept as they were rendered.
\<close>

datatype inst =
    SunI node
  | PlanetI PlanetProps node
  | SaturnRingsI real node
  | HostI element

text \<open>The leaves of the rendered elements, in document order: fragments add no object.\<close>

fun leaves :: "element \<Rightarrow> element list" where
  "leaves (Fragment k cs) = concat (map leaves cs)"
| "leaves e = [e]"

fun mount_leaf :: "element \<Rightarrow> inst" where
  "mount_leaf SunE = SunI Sun"
| "mount_leaf (PlanetE p) = PlanetI p (Planet p)"
| "mount_leaf (SaturnRingsE d) = SaturnRingsI d (SaturnRings d)"
| "mount_leaf e = HostI e"

text \<open>
  A re-render keeps the instance of an element whose component type is unchanged at the
  same place (the keys, the planets' names, are the same in every render): its objects,
  and what the frame callbacks have written to them, survive, and its frame callback
  sees the new props. Anything else is mounted afresh. No attribute is patched on a kept
  object: between two renders only \<open>speed\<close> changes, and no attribute of the JSX of
  \<open>Planet\<close> is computed from it (lemma \<open>Planet_speed\<close>). A state setter is modelled
  together with the re-render it causes: the new props are in place when the next frame
  callback runs.
\<close>

fun update_inst :: "element \<Rightarrow> inst \<Rightarrow> inst" where
  "update_inst SunE (SunI n) = SunI n"
| "update_inst (PlanetE p) (PlanetI q n) = PlanetI p n"
| "update_inst (SaturnRingsE d) (SaturnRingsI d' n) = SaturnRingsI d n"
| "update_inst e i = mount_leaf e"

fun reconcile :: "element list \<Rightarrow> inst list \<Rightarrow> inst list" where
  "reconcile [] is = []"
| "reconcile (e # es) [] = mount_leaf e # reconcile es []"
| "reconcile (e # es) (i # is) = update_inst e i # reconcile es is"

record app_state =
  react :: view_state
  insts :: "inst list"

definition rerender :: "app_state \<Rightarrow> app_state" where
  "rerender st =
     st\<lparr>insts := reconcile (concat (map leaves (Block_canvas (react st)))) (insts st)\<rparr>"

text \<open>The two state setters of Block: \<^verbatim>\<open>useState\<close> stores the value and Block renders again.\<close>

definition setAnimationSpeed :: "real \<Rightarrow> app_state \<Rightarrow> app_state" where
  "setAnimationSpeed v st = rerender (st\<lparr>react := (react st)\<lparr>animationSpeed := v\<rparr>\<rparr>)"

definition setShowOrbits :: "bool \<Rightarrow> app_state \<Rightarrow> app_state" where
  "setShowOrbits b st = rerender (st\<lparr>react := (react st)\<lparr>showOrbits := b\<rparr>\<rparr>)"

subsection \<open>ControlPanel\<close>

text \<open>
  The range input and the checkbox, with their change handlers. A handler takes what the
  event carries (\<^verbatim>\<open>e.target.value\<close>, a string; \<^verbatim>\<open>e.target.checked\<close>) and the callback
  it was given as a prop. \<^verbatim>\<open>parseFloat\<close> is the JavaScript builtin, a parameter here.
\<close>

record 's panel =
  range_min :: string
  range_max :: string
  range_step :: string
  range_value :: real
  range_onChange :: "string \<Rightarrow> 's \<Rightarrow> 's"
  checkbox_checked :: bool
  checkbox_onChange :: "bool \<Rightarrow> 's \<Rightarrow> 's"

definition ControlPanel ::
  "(string \<Rightarrow> real) \<Rightarrow> real \<Rightarrow> (real \<Rightarrow> 's \<Rightarrow> 's) \<Rightarrow> bool \<Rightarrow> (bool \<Rightarrow> 's \<Rightarrow> 's) \<Rightarrow> 's panel" where
  "ControlPanel parseFloat animSpeed setSpeed showOrb setShow =
     \<lparr>range_min = ''0'', range_max = ''5'', range_step = ''0.1'',
      range_value = animSpeed,
      range_onChange = (\<lambda>value. setSpeed (parseFloat value)),
      checkbox_checked = showOrb,
      checkbox_onChange = (\<lambda>checked. setShow checked)\<rparr>"

subsection \<open>Block: state, render, frames\<close>

definition Block_panel :: "(string \<Rightarrow> real) \<Rightarrow> view_state \<Rightarrow> app_state panel" where
  "Block_panel parseFloat st =
     ControlPanel parseFloat (animationSpeed st) setAnimationSpeed (showOrbits st) setShowOrbits"

text \<open>Mounting: \<^verbatim>\<open>useState(1)\<close>, \<^verbatim>\<open>useState(true)\<close>, and the first render's objects.\<close>

definition Block_init :: app_state where
  "Block_init =
     (let st = \<lparr>animationSpeed = 1, showOrbits = True\<rparr>
      in \<lparr>react = st, insts = map mount_leaf (concat (map leaves (Block_canvas st)))\<rparr>)"

fun useFrame :: "real \<Rightarrow> inst \<Rightarrow> inst" where
  "useFrame elapsed (SunI n) = SunI (Sun_useFrame n)"
| "useFrame elapsed (PlanetI p n) = PlanetI p (Planet_useFrame p elapsed n)"
| "useFrame elapsed (SaturnRingsI d n) = SaturnRingsI d (SaturnRings_useFrame elapsed n)"
| "useFrame elapsed (HostI e) = HostI e"

text \<open>
  What happens to a mounted Block: the slider changes (the event carries the input's
  value), the checkbox changes, or the render loop runs one frame at an elapsed time.
\<close>

datatype view_event = SliderChange string | CheckboxChange bool | Frame real

fun view_step :: "(string \<Rightarrow> real) \<Rightarrow> view_event \<Rightarrow> app_state \<Rightarrow> app_state" where
  "view_step parseFloat (SliderChange value) st =
     range_onChange (Block_panel parseFloat (react st)) value st"
| "view_step parseFloat (CheckboxChange checked) st =
     checkbox_onChange (Block_panel parseFloat (react st)) checked st"
| "view_step parseFloat (Frame elapsed) st = st\<lparr>insts := map (useFrame elapsed) (insts st)\<rparr>"

definition view_run :: "(string \<Rightarrow> real) \<Rightarrow> view_event list \<Rightarrow> app_state \<Rightarrow> app_state" where
  "view_run parseFloat evs st = fold (view_step parseFloat) evs st"

subsection \<open>Observations of the scene\<close>

fun orbital_angles :: "inst list \<Rightarrow> (string \<times> real option) list" where
  "orbital_angles [] = []"
| "orbital_angles (PlanetI p n # is) = (name p, ref_rotation_y planetRef n) # orbital_angles is"
| "orbital_angles (i # is) = orbital_angles is"

fun spin_angles :: "inst list \<Rightarrow> (string \<times> real option) list" where
  "spin_angles [] = []"
| "spin_angles (PlanetI p n # is) = (name p, ref_rotation_y meshRef n) # spin_angles is"
| "spin_angles (SunI n # is) = (''Sun'', ref_rotation_y sunRef n) # spin_angles is"
| "spin_angles (i # is) = spin_angles is"

fun ring_angles :: "inst list \<Rightarrow> real option list" where
  "ring_angles [] = []"
| "ring_angles (SaturnRingsI d n # is) = ref_rotation_y ringsRef n # ring_angles is"
| "ring_angles (i # is) = ring_angles is"

fun orbit_lines :: "inst list \<Rightarrow> (string \<times> node option) list" where
  "orbit_lines [] = []"
| "orbit_lines (PlanetI p n # is) = (name p, orbit_line n) # orbit_lines is"
| "orbit_lines (i # is) = orbit_lines is"

fun planets_of :: "element list \<Rightarrow> PlanetProps list" where
  "planets_of [] = []"
| "planets_of (PlanetE p # es) = p # planets_of es"
| "planets_of (e # es) = planets_of es"

fun rings_of :: "element list \<Rightarrow> real list" where
  "rings_of [] = []"
| "rings_of (SaturnRingsE d # es) = d # rings_of es"
| "rings_of (e # es) = rings_of es"

fun is_Frame :: "view_event \<Rightarrow> bool" where
  "is_Frame (Frame t) = True"
| "is_Frame e = False"

definition frames :: "view_event list \<Rightarrow> nat" where
  "frames evs = length (filter is_Frame evs)"

text \<open>Two events that are the same but for the value a checkbox change carries.\<close>

fun same_but_flag :: "view_event \<Rightarrow> view_event \<Rightarrow> bool" where
  "same_but_flag (CheckboxChange b) (CheckboxChange b') = True"
| "same_but_flag e e' = (e = e')"

subsection \<open>The completion message and the life cycle\<close>

datatype target = window | window_parent

record message =
  type' :: string
  blockId :: string
  completed :: bool

definition completion :: message where
  "completion = \<lparr>type' = ''BLOCK_COMPLETION'', blockId = ''solar-system-3d'', completed = True\<rparr>"

text \<open>
  Time is counted in milliseconds. The browser's timer table holds the identifier and
  the due time of each pending timer (the only callback this file ever schedules is the
  completion one); a timer runs once, in the millisecond it falls due. \<open>posted\<close> logs
  every \<^verbatim>\<open>postMessage\<close> call with the time of the call, its receiver, the message and
  the target origin. \<open>cleanup\<close> is the function the effect returned: it closes over the
  timer's identifier.
\<close>

record block_state =
  app :: app_state
  mounted :: bool
  now :: nat
  timers :: "(nat \<times> nat) list"
  next_timer :: nat
  cleanup :: "nat option"
  posted :: "(nat \<times> target \<times> message \<times> string) list"

definition setTimeout :: "nat \<Rightarrow> block_state \<Rightarrow> nat \<times> block_state" where
  "setTimeout delay st =
     (next_timer st,
      st\<lparr>timers := timers st @ [(next_timer st, now st + delay)],
         next_timer := next_timer st + 1\<rparr>)"

definition clearTimeout :: "nat \<Rightarrow> block_state \<Rightarrow> block_state" where
  "clearTimeout timer st = st\<lparr>timers := filter (\<lambda>(i, due). i \<noteq> timer) (timers st)\<rparr>"

definition timer_callback :: "block_state \<Rightarrow> block_state" where
  "timer_callback st =
     st\<lparr>posted := posted st @ [(now st, window, completion, ''*''),
                                 (now st, window_parent, completion, ''*'')]\<rparr>"

text \<open>The effect has no dependencies: it runs once, when Block mounts.\<close>

definition Block_useEffect :: "block_state \<Rightarrow> block_state" where
  "Block_useEffect st = (case setTimeout 2000 st of (timer, st') \<Rightarrow> st'\<lparr>cleanup := Some timer\<rparr>)"

definition Block_mount :: "nat \<Rightarrow> block_state" where
  "Block_mount t0 =
     Block_useEffect \<lparr>app = Block_init, mounted = True, now = t0, timers = [], next_timer = 1,
                      cleanup = None, posted = []\<rparr>"

definition Block_unmount :: "block_state \<Rightarrow> block_state" where
  "Block_unmount st =
     (if mounted st
      then (case cleanup st of None \<Rightarrow> st | Some timer \<Rightarrow> clearTimeout timer st)
             \<lparr>mounted := False, cleanup := None\<rparr>
      else st)"

definition tick :: "block_state \<Rightarrow> block_state" where
  "tick st =
     (let t = now st + 1;
          due = filter (\<lambda>(i, d). d \<le> t) (timers st);
          st' = st\<lparr>now := t, timers := filter (\<lambda>(i, d). \<not> d \<le> t) (timers st)\<rparr>
      in fold (\<lambda>timer. timer_callback) due st')"

text \<open>
  Input and frames reach a mounted Block only; a millisecond passes; Block unmounts.
\<close>

datatype event = View view_event | Tick | Unmount

fun step :: "(string \<Rightarrow> real) \<Rightarrow> event \<Rightarrow> block_state \<Rightarrow> block_state" where
  "step parseFloat (View e) st =
     (if mounted st then st\<lparr>app := view_step parseFloat e (app st)\<rparr> else st)"
| "step parseFloat Tick st = tick st"
| "step parseFloat Unmount st = Block_unmount st"

definition run :: "(string \<Rightarrow> real) \<Rightarrow> event list \<Rightarrow> block_state \<Rightarrow> block_state" where
  "run parseFloat evs st = fold (step parseFloat) evs st"

definition ticks :: "event list \<Rightarrow> nat" where
  "ticks evs = length (filter (\<lambda>e. e = Tick) evs)"

subsection \<open>The shape of every reachable scene\<close>

text \<open>
  The objects of the scene when the multiplier is \<open>m\<close>, the last frame ran at elapsed
  time \<open>tf\<close> under the multiplier \<open>ml\<close>, and \<open>k\<close> frames have run. Used to state the
  invariant of \<open>view_run\<close>; the mounted scene is the case \<open>tf = 0\<close>, \<open>k = 0\<close>.
\<close>

definition planet_props :: "real \<Rightarrow> PlanetProps \<Rightarrow> PlanetProps" where
  "planet_props m planet =
     \<lparr>name = name planet, size' = size' planet, distance = distance planet,
      color = color planet, speed = speed planet * m\<rparr>"

definition planet_insts :: "real \<Rightarrow> real \<Rightarrow> real \<Rightarrow> nat \<Rightarrow> PlanetProps \<Rightarrow> inst list" where
  "planet_insts m tf ml k planet =
     PlanetI (planet_props m planet)
       (update_ref meshRef (\<lambda>y. real k * 0.02)
         (update_ref planetRef (\<lambda>y. tf * (speed planet * ml)) (Planet (planet_props m planet))))
     # (if name planet = ''Saturn''
        then [SaturnRingsI (distance planet)
                (update_ref ringsRef (\<lambda>y. tf * 0.004) (SaturnRings (distance planet)))]
        else [])"

definition scene_form :: "real \<Rightarrow> real \<Rightarrow> real \<Rightarrow> nat \<Rightarrow> inst list" where
  "scene_form m tf ml k =
     [HostI (ambientLight 0.2),
      HostI (pointLight (0, 0, 0) 2 ''#FDB813''),
      HostI (pointLight (10, 10, 10) 0.5 ''white''),
      SunI (update_ref sunRef (\<lambda>y. real k * 0.01) Sun)]
     @ concat (map (planet_insts m tf ml k) planetData)
     @ [HostI (MeshE (Mesh None (0, 0, 0) (0, 0, 0) (sphereGeometry 100 32 32)
                (meshBasicMaterial ''#000033'' True (Some 0.8) (Some BackSide)) [])),
        HostI (OrbitControls True True True 5 50 False)]"

text \<open>The multiplier after a run, and the time and multiplier of its last frame.\<close>

fun cur_speed :: "(string \<Rightarrow> real) \<Rightarrow> real \<Rightarrow> view_event list \<Rightarrow> real" where
  "cur_speed pf m [] = m"
| "cur_speed pf m (SliderChange v # evs) = cur_speed pf (pf v) evs"
| "cur_speed pf m (e # evs) = cur_speed pf m evs"

fun last_frame :: "(string \<Rightarrow> real) \<Rightarrow> real \<Rightarrow> real \<times> real \<Rightarrow> view_event list \<Rightarrow> real \<times> real" where
  "last_frame pf m tm [] = tm"
| "last_frame pf m tm (SliderChange v # evs) = last_frame pf (pf v) tm evs"
| "last_frame pf m tm (Frame t # evs) = last_frame pf m (t, m) evs"
| "last_frame pf m tm (e # evs) = last_frame pf m tm evs"

fun cur_flag :: "bool \<Rightarrow> view_event list \<Rightarrow> bool" where
  "cur_flag b [] = b"
| "cur_flag b (CheckboxChange c # evs) = cur_flag c evs"
| "cur_flag b (e # evs) = cur_flag b evs"

text \<open>The rings each fragment of the canvas holds, by the fragment's key.\<close>

fun fragment_rings :: "element list \<Rightarrow> (string \<times> real list) list" where
  "fragment_rings [] = []"
| "fragment_rings (Fragment k cs # es) = (k, rings_of cs) # fragment_rings es"
| "fragment_rings (e # es) = fragment_rings es"

text \<open>The two \<^verbatim>\<open>postMessage\<close> calls of the timer callback when it runs at time \<open>t\<close>.\<close>

definition fired :: "nat \<Rightarrow> (nat \<times> target \<times> message \<times> string) list" where
  "fired t = [(t, window, completion, ''*''), (t, window_parent, completion, ''*'')]"

section \<open>The invariant of the scene\<close>

text \<open>
  Mounting gives a scene of the form \<open>scene_form\<close>, and every frame and every re-render
  keeps it: the objects of a reachable state are known in closed form.
\<close>

lemma Planet_speed: "Planet (p\<lparr>speed := s\<rparr>) = Planet p"
  by (simp add: Planet_def)

lemma init_form: "insts Block_init = scene_form 1 0 ml 0"
  by (simp add: Block_init_def Block_canvas_def scene_form_def planetData_def
      planet_fragment_def planet_insts_def planet_props_def Planet_def SaturnRings_def Sun_def)

lemma planet_frame:
  "map (useFrame t) (planet_insts m tf ml k planet) = planet_insts m t m (Suc k) planet"
  by (simp add: planet_insts_def planet_props_def Planet_def SaturnRings_def
      Planet_useFrame_def SaturnRings_useFrame_def algebra_simps)

lemma frame_form: "map (useFrame t) (scene_form m tf ml k) = scene_form m t m (Suc k)"
  by (simp add: scene_form_def map_concat planet_frame Sun_useFrame_def Sun_def comp_def algebra_simps)

lemma rerender_form:
  "reconcile (concat (map leaves (Block_canvas \<lparr>animationSpeed = v, showOrbits = b\<rparr>)))
     (scene_form m tf ml k) = scene_form v tf ml k"
  by (simp add: Block_canvas_def scene_form_def planetData_def
      planet_fragment_def planet_insts_def planet_props_def Planet_def SaturnRings_def Sun_def)

lemma orbital_form:
  "orbital_angles (scene_form m tf ml k) = map (\<lambda>p. (name p, Some (tf * (speed p * ml)))) planetData"
  by (simp add: scene_form_def planetData_def planet_insts_def planet_props_def Planet_def
      SaturnRings_def ref_rotation_y_def)

lemma spin_form:
  "spin_angles (scene_form m tf ml k) =
     (''Sun'', Some (real k * 0.01)) # map (\<lambda>p. (name p, Some (real k * 0.02))) planetData"
  by (simp add: scene_form_def planetData_def planet_insts_def planet_props_def Planet_def
      SaturnRings_def Sun_def ref_rotation_y_def)

lemma ring_form: "ring_angles (scene_form m tf ml k) = [Some (tf * 0.004)]"
  by (simp add: scene_form_def planetData_def planet_insts_def planet_props_def Planet_def
      SaturnRings_def Sun_def ref_rotation_y_def)

lemma orbit_lines_form:
  "orbit_lines (scene_form m tf ml k) =
     map (\<lambda>p. (name p, Some (Mesh None (0, 0, 0) (pi / 2, 0, 0)
                 (ringGeometry (distance p - 0.01) (distance p + 0.01) 64)
                 (meshBasicMaterial ''#333333'' True (Some 0.3) None) []))) planetData"
  by (simp add: scene_form_def planetData_def planet_insts_def planet_props_def Planet_def
      SaturnRings_def Sun_def)

lemma view_step_form:
  "view_step pf e \<lparr>react = \<lparr>animationSpeed = m, showOrbits = b\<rparr>, insts = scene_form m tf ml k\<rparr> =
     \<lparr>react = \<lparr>animationSpeed = cur_speed pf m [e], showOrbits = cur_flag b [e]\<rparr>,
      insts = scene_form (cur_speed pf m [e]) (fst (last_frame pf m (tf, ml) [e]))
                (snd (last_frame pf m (tf, ml) [e])) (k + frames [e])\<rparr>"
  by (cases e)
     (simp_all add: Block_panel_def ControlPanel_def setAnimationSpeed_def setShowOrbits_def
        rerender_def rerender_form frame_form frames_def)

lemma view_run_form:
  "view_run pf evs \<lparr>react = \<lparr>animationSpeed = m, showOrbits = b\<rparr>, insts = scene_form m tf ml k\<rparr> =
     \<lparr>react = \<lparr>animationSpeed = cur_speed pf m evs, showOrbits = cur_flag b evs\<rparr>,
      insts = scene_form (cur_speed pf m evs) (fst (last_frame pf m (tf, ml) evs))
                (snd (last_frame pf m (tf, ml) evs)) (k + frames evs)\<rparr>"
proof (induction evs arbitrary: m b tf ml k)
  case Nil
  show ?case by (simp add: view_run_def frames_def)
next
  case (Cons e evs)
  have "view_run pf (e # evs) \<lparr>react = \<lparr>animationSpeed = m, showOrbits = b\<rparr>, insts = scene_form m tf ml k\<rparr>
      = view_run pf evs (view_step pf e \<lparr>react = \<lparr>animationSpeed = m, showOrbits = b\<rparr>, insts = scene_form m tf ml k\<rparr>)"
    by (simp add: view_run_def)
  also have "\<dots> = \<lparr>react = \<lparr>animationSpeed = cur_speed pf m (e # evs), showOrbits = cur_flag b (e # evs)\<rparr>,
      insts = scene_form (cur_speed pf m (e # evs)) (fst (last_frame pf m (tf, ml) (e # evs)))
                (snd (last_frame pf m (tf, ml) (e # evs))) (k + frames (e # evs))\<rparr>"
    unfolding view_step_form Cons.IH
    by (cases e) (simp_all add: frames_def)
  finally show ?case .
qed

lemma Block_init_form:
  "Block_init = \<lparr>react = \<lparr>animationSpeed = 1, showOrbits = True\<rparr>, insts = scene_form 1 0 1 0\<rparr>"
  using init_form [of 1] by (simp add: Block_init_def Let_def)

lemma reachable_form:
  "view_run pf evs Block_init =
     \<lparr>react = \<lparr>animationSpeed = cur_speed pf 1 evs, showOrbits = cur_flag True evs\<rparr>,
      insts = scene_form (cur_speed pf 1 evs) (fst (last_frame pf 1 (0, 1) evs))
                (snd (last_frame pf 1 (0, 1) evs)) (frames evs)\<rparr>"
  unfolding Block_init_form view_run_form by simp

lemma view_run_append: "view_run pf (evs @ evs') st = view_run pf evs' (view_run pf evs st)"
  by (simp add: view_run_def)

lemma view_run_single: "view_run pf [e] st = view_step pf e st"
  by (simp add: view_run_def)

lemma cur_speed_append: "cur_speed pf m (evs @ evs') = cur_speed pf (cur_speed pf m evs) evs'"
  by (induction pf m evs rule: cur_speed.induct) simp_all

lemma last_frame_append:
  "last_frame pf m tm (evs @ evs') = last_frame pf (cur_speed pf m evs) (last_frame pf m tm evs) evs'"
  by (induction pf m tm evs rule: last_frame.induct) simp_all

lemma frame_after_run:
  "orbital_angles (insts (view_run pf (evs @ [Frame t]) Block_init)) =
     map (\<lambda>p. (name p, Some (t * speed p * cur_speed pf 1 evs))) planetData"
  by (simp add: reachable_form orbital_form last_frame_append cur_speed_append mult.assoc)

lemma speed_after_run: "animationSpeed (react (view_run pf evs Block_init)) = cur_speed pf 1 evs"
  by (simp add: reachable_form)

subsection \<open>Runs of the life cycle\<close>

lemma run_snoc: "run pf (evs @ [e]) st = step pf e (run pf evs st)"
  by (simp add: run_def)

lemma run_append: "run pf (evs @ evs') st = run pf evs' (run pf evs st)"
  by (simp add: run_def)

lemma run_Cons: "run pf (e # evs) st = run pf evs (step pf e st)"
  by (simp add: run_def)

lemma mount_fields:
  "mounted (Block_mount t0) \<and> now (Block_mount t0) = t0 \<and> timers (Block_mount t0) = [(1, t0 + 2000)]
   \<and> cleanup (Block_mount t0) = Some 1 \<and> posted (Block_mount t0) = []"
  by (simp add: Block_mount_def Block_useEffect_def setTimeout_def)

lemma tick_pending:
  assumes "timers st = [(i, d)]" and "now st + 1 < d"
  shows "tick st = st\<lparr>now := now st + 1\<rparr>"
  using assms by (simp add: tick_def Let_def)

lemma tick_due:
  assumes "timers st = [(i, d)]" and "now st + 1 = d"
  shows "tick st = st\<lparr>now := d, timers := [], posted := posted st @ fired d\<rparr>"
  using assms by (simp add: tick_def Let_def timer_callback_def fired_def)

lemma tick_idle:
  assumes "timers st = []"
  shows "tick st = st\<lparr>now := now st + 1\<rparr>"
  using assms by (simp add: tick_def Let_def)

lemma ticks_snoc: "ticks (evs @ [e]) = ticks evs + (if e = Tick then 1 else 0)"
  by (simp add: ticks_def)

lemma mounted_run:
  assumes "Unmount \<notin> set evs"
  shows "mounted (run pf evs (Block_mount t0))
       \<and> now (run pf evs (Block_mount t0)) = t0 + ticks evs
       \<and> cleanup (run pf evs (Block_mount t0)) = Some 1
       \<and> timers (run pf evs (Block_mount t0)) = (if ticks evs < 2000 then [(1, t0 + 2000)] else [])
       \<and> posted (run pf evs (Block_mount t0)) = (if ticks evs < 2000 then [] else fired (t0 + 2000))"
  using assms
proof (induction evs rule: rev_induct)
  case Nil
  show ?case using mount_fields [of t0] by (simp add: run_def ticks_def)
next
  case (snoc e evs)
  let ?st = "run pf evs (Block_mount t0)"
  from snoc have IH: "mounted ?st" "now ?st = t0 + ticks evs" "cleanup ?st = Some 1"
    "timers ?st = (if ticks evs < 2000 then [(1, t0 + 2000)] else [])"
    "posted ?st = (if ticks evs < 2000 then [] else fired (t0 + 2000))"
    and ne: "e \<noteq> Unmount"
    by auto
  show ?case
  proof (cases e)
    case (View v)
    with IH show ?thesis by (simp add: run_snoc ticks_snoc)
  next
    case Tick
    consider "ticks evs + 1 < 2000" | "ticks evs + 1 = 2000" | "2000 \<le> ticks evs" by linarith
    then show ?thesis
    proof cases
      case 1
      then have "tick ?st = ?st\<lparr>now := now ?st + 1\<rparr>"
        using IH by (intro tick_pending [where i = 1 and d = "t0 + 2000"]) simp_all
      with 1 IH Tick show ?thesis by (simp add: run_snoc ticks_snoc)
    next
      case 2
      then have "tick ?st = ?st\<lparr>now := t0 + 2000, timers := [], posted := posted ?st @ fired (t0 + 2000)\<rparr>"
        using IH by (intro tick_due [where i = 1]) simp_all
      with 2 IH Tick show ?thesis by (simp add: run_snoc ticks_snoc)
    next
      case 3
      then have "tick ?st = ?st\<lparr>now := now ?st + 1\<rparr>"
        using IH by (intro tick_idle) simp
      with 3 IH Tick show ?thesis by (simp add: run_snoc ticks_snoc)
    qed
  next
    case Unmount
    with ne show ?thesis by simp
  qed
qed

lemma unmounted_step:
  assumes "\<not> mounted st" and "timers st = []"
  shows "\<not> mounted (step pf e st) \<and> timers (step pf e st) = [] \<and> posted (step pf e st) = posted st"
  using assms by (cases e) (simp_all add: tick_def Let_def Block_unmount_def)

lemma unmounted_run:
  assumes "\<not> mounted st" and "timers st = []"
  shows "\<not> mounted (run pf evs st) \<and> timers (run pf evs st) = [] \<and> posted (run pf evs st) = posted st"
  using assms
proof (induction evs arbitrary: st)
  case Nil
  then show ?case by (simp add: run_def)
next
  case (Cons e evs)
  from unmounted_step [OF Cons.prems, of pf e]
  have s: "\<not> mounted (step pf e st)" "timers (step pf e st) = []" "posted (step pf e st) = posted st"
    by simp_all
  from Cons.IH [OF s(1) s(2)] s(3) show ?case by (simp add: run_Cons)
qed

lemma unmount_clears:
  assumes "Unmount \<notin> set evs"
  shows "\<not> mounted (Block_unmount (run pf evs (Block_mount t0)))
       \<and> timers (Block_unmount (run pf evs (Block_mount t0))) = []
       \<and> posted (Block_unmount (run pf evs (Block_mount t0))) = posted (run pf evs (Block_mount t0))"
  using mounted_run [OF assms, of pf t0]
  by (simp add: Block_unmount_def clearTimeout_def)

subsection \<open>Runs that differ in the checkbox only\<close>

lemma frames_append: "frames (evs @ evs') = frames evs + frames evs'"
  by (simp add: frames_def)

lemma same_flag_run:
  assumes "list_all2 same_but_flag evs evs'"
  shows "cur_speed pf m evs = cur_speed pf m evs'
       \<and> last_frame pf m tm evs = last_frame pf m tm evs'
       \<and> frames evs = frames evs'"
  using assms
proof (induction arbitrary: m tm rule: list_all2_induct)
  case Nil
  show ?case by simp
next
  case (Cons e es e' es')
  from Cons.hyps(1) show ?case
  proof (cases e)
    case (CheckboxChange b)
    with Cons.hyps(1) obtain b' where "e' = CheckboxChange b'" by (cases e') simp_all
    with CheckboxChange Cons.IH show ?thesis by (simp add: frames_def)
  next
    case (SliderChange v)
    with Cons.hyps(1) have "e' = SliderChange v" by simp
    with SliderChange Cons.IH show ?thesis by (simp add: frames_def)
  next
    case (Frame t)
    with Cons.hyps(1) have "e' = Frame t" by simp
    with Frame Cons.IH show ?thesis by (simp add: frames_def)
  qed
qed

section \<open>The claims\<close>

text \<open>
  C1. At every rendered frame, each planet's orbital angle (the rotation about the y axis
  of its pivot group) is the elapsed time of that frame times the planet's base speed
  times the multiplier stored at that moment, whatever events came before: it depends on
  the current elapsed time and the current multiplier only. In particular, after a slider
  change the very next frame shows the angle for the new multiplier. This holds for every
  elapsed time and multiplier, so for \<open>t \<ge> 0\<close> and \<open>m\<close> between 0 and 5.
\<close>

theorem orbital_angle_pure:
  "orbital_angles (insts (view_step pf (Frame t) (view_run pf evs Block_init))) =
     map (\<lambda>p. (name p, Some (t * speed p * animationSpeed (react (view_run pf evs Block_init)))))
       planetData
   \<and> orbital_angles (insts (view_run pf (evs @ [SliderChange v, Frame t]) Block_init)) =
     map (\<lambda>p. (name p, Some (t * speed p * pf v))) planetData"
proof
  show "orbital_angles (insts (view_step pf (Frame t) (view_run pf evs Block_init))) =
     map (\<lambda>p. (name p, Some (t * speed p * animationSpeed (react (view_run pf evs Block_init)))))
       planetData"
    using frame_after_run [of pf evs t]
    by (simp only: view_run_append view_run_single speed_after_run)
  show "orbital_angles (insts (view_run pf (evs @ [SliderChange v, Frame t]) Block_init)) =
     map (\<lambda>p. (name p, Some (t * speed p * pf v))) planetData"
    using frame_after_run [of pf "evs @ [SliderChange v]" t]
    by (simp add: cur_speed_append)
qed

theorem orbital_angle_pure_witness:
  "orbital_angles (insts (view_step (\<lambda>s. 5 / 2) (Frame 10)
      (view_run (\<lambda>s. 5 / 2) [Frame 3, SliderChange ''2.5''] Block_init))) =
   [(''Mercury'', Some (1 / 2)), (''Venus'', Some (3 / 8)), (''Earth'', Some (1 / 4)),
    (''Mars'', Some (1 / 5)), (''Jupiter'', Some (1 / 8)), (''Saturn'', Some (1 / 10)),
    (''Uranus'', Some (3 / 40)), (''Neptune'', Some (1 / 20))]"
  using orbital_angle_pure [of "\<lambda>s. 5 / 2" 10 "[Frame 3, SliderChange ''2.5'']"]
  by (simp add: speed_after_run planetData_def)

text \<open>
  C2. The completion message, the object with \<^verbatim>\<open>type\<close> \<open>BLOCK_COMPLETION\<close>, \<^verbatim>\<open>blockId\<close>
  \<open>solar-system-3d\<close> and \<^verbatim>\<open>completed\<close> true, is broadcast (posted to \<^verbatim>\<open>window\<close> and to
  \<^verbatim>\<open>window.parent\<close>, with target origin \<open>*\<close>, by one run of the timer callback) exactly
  once, 2000 milliseconds after Block mounts, when Block stays mounted: the log of posts
  is empty before the 2000th millisecond and holds that one broadcast, stamped
  \<open>t0 + 2000\<close>, ever after. Unmounting clears the pending timer: nothing is posted after
  an unmount, and a Block unmounted before 2000 milliseconds have passed never posts at
  all.
\<close>

theorem completion_once:
  "(Unmount \<notin> set evs \<longrightarrow>
      posted (run pf evs (Block_mount t0)) =
        (if ticks evs < 2000 then []
         else [(t0 + 2000, window,
                \<lparr>type' = ''BLOCK_COMPLETION'', blockId = ''solar-system-3d'', completed = True\<rparr>,
                ''*''),
               (t0 + 2000, window_parent,
                \<lparr>type' = ''BLOCK_COMPLETION'', blockId = ''solar-system-3d'', completed = True\<rparr>,
                ''*'')]))
   \<and> (Unmount \<notin> set evs1 \<longrightarrow>
        posted (run pf (evs1 @ Unmount # evs2) (Block_mount t0)) = posted (run pf evs1 (Block_mount t0))
        \<and> timers (run pf (evs1 @ Unmount # evs2) (Block_mount t0)) = []
        \<and> (ticks evs1 < 2000 \<longrightarrow> posted (run pf (evs1 @ Unmount # evs2) (Block_mount t0)) = []))"
proof (intro conjI impI)
  assume "Unmount \<notin> set evs"
  from mounted_run [OF this, of pf t0]
  show "posted (run pf evs (Block_mount t0)) =
        (if ticks evs < 2000 then []
         else [(t0 + 2000, window,
                \<lparr>type' = ''BLOCK_COMPLETION'', blockId = ''solar-system-3d'', completed = True\<rparr>,
                ''*''),
               (t0 + 2000, window_parent,
                \<lparr>type' = ''BLOCK_COMPLETION'', blockId = ''solar-system-3d'', completed = True\<rparr>,
                ''*'')])"
    by (simp add: fired_def completion_def)
next
  assume nu: "Unmount \<notin> set evs1"
  let ?st = "Block_unmount (run pf evs1 (Block_mount t0))"
  from unmount_clears [OF nu, of pf t0]
  have u: "\<not> mounted ?st" "timers ?st = []" "posted ?st = posted (run pf evs1 (Block_mount t0))"
    by simp_all
  have r: "run pf (evs1 @ Unmount # evs2) (Block_mount t0) = run pf evs2 ?st"
    by (simp add: run_append run_Cons)
  from unmounted_run [OF u(1) u(2), of pf evs2] u(3)
  show p: "posted (run pf (evs1 @ Unmount # evs2) (Block_mount t0)) = posted (run pf evs1 (Block_mount t0))"
    and "timers (run pf (evs1 @ Unmount # evs2) (Block_mount t0)) = []"
    by (simp_all add: r)
  assume "ticks evs1 < 2000"
  with mounted_run [OF nu, of pf t0] p
  show "posted (run pf (evs1 @ Unmount # evs2) (Block_mount t0)) = []"
    by simp
qed

theorem completion_once_witness:
  "Unmount \<notin> set (replicate 2000 Tick)
   \<and> posted (run (\<lambda>s. 3) (replicate 2000 Tick) (Block_mount 0)) =
        [(2000, window,
          \<lparr>type' = ''BLOCK_COMPLETION'', blockId = ''solar-system-3d'', completed = True\<rparr>, ''*''),
         (2000, window_parent,
          \<lparr>type' = ''BLOCK_COMPLETION'', blockId = ''solar-system-3d'', completed = True\<rparr>, ''*'')]
   \<and> Unmount \<notin> set [Tick, View (SliderChange ''3''), Tick]
   \<and> ticks [Tick, View (SliderChange ''3''), Tick] < 2000
   \<and> posted (run (\<lambda>s. 3) ([Tick, View (SliderChange ''3''), Tick] @ Unmount # replicate 5000 Tick)
        (Block_mount 0)) = []
   \<and> timers (run (\<lambda>s. 3) ([Tick, View (SliderChange ''3''), Tick] @ Unmount # replicate 5000 Tick)
        (Block_mount 0)) = []"
proof -
  note w = completion_once [of "replicate 2000 Tick" "\<lambda>s. 3" 0
      "[Tick, View (SliderChange ''3''), Tick]" "replicate 5000 Tick"]
  have h1: "Unmount \<notin> set (replicate 2000 Tick)" by simp
  have h2: "Unmount \<notin> set [Tick, View (SliderChange ''3''), Tick]" by simp
  have h3: "ticks [Tick, View (SliderChange ''3''), Tick] < 2000" by (simp add: ticks_def)
  have t: "\<not> ticks (replicate 2000 Tick) < 2000" by (simp add: ticks_def)
  from w h1 t have a: "posted (run (\<lambda>s. 3) (replicate 2000 Tick) (Block_mount 0)) =
        [(2000, window,
          \<lparr>type' = ''BLOCK_COMPLETION'', blockId = ''solar-system-3d'', completed = True\<rparr>, ''*''),
         (2000, window_parent,
          \<lparr>type' = ''BLOCK_COMPLETION'', blockId = ''solar-system-3d'', completed = True\<rparr>, ''*'')]"
    by simp
  from w h2 h3 have b: "posted (run (\<lambda>s. 3)
        ([Tick, View (SliderChange ''3''), Tick] @ Unmount # replicate 5000 Tick) (Block_mount 0)) = []"
    by blast
  from w h2 have c: "timers (run (\<lambda>s. 3)
        ([Tick, View (SliderChange ''3''), Tick] @ Unmount # replicate 5000 Tick) (Block_mount 0)) = []"
    by blast
  from h1 h2 h3 a b c show ?thesis by blast
qed

text \<open>
  C3. The flag \<open>showOrbits\<close> does not gate the orbit lines. What Block renders inside the
  canvas does not depend on the flag, the flag is what the checkbox shows, and two runs
  that differ only in the values their checkbox changes carry have the same canvas
  elements and the same scene objects, in particular the same orbit line for every planet.
\<close>

theorem orbit_flag_inert:
  "Block_canvas (st\<lparr>showOrbits := b\<rparr>) = Block_canvas st
   \<and> checkbox_checked (Block_panel pf (st\<lparr>showOrbits := b\<rparr>)) = b
   \<and> (list_all2 same_but_flag evs evs' \<longrightarrow>
        insts (view_run pf evs Block_init) = insts (view_run pf evs' Block_init)
        \<and> Block_canvas (react (view_run pf evs Block_init)) =
            Block_canvas (react (view_run pf evs' Block_init))
        \<and> orbit_lines (insts (view_run pf evs Block_init)) =
            orbit_lines (insts (view_run pf evs' Block_init)))"
proof (intro conjI impI)
  show "Block_canvas (st\<lparr>showOrbits := b\<rparr>) = Block_canvas st"
    by (simp add: Block_canvas_def)
  show "checkbox_checked (Block_panel pf (st\<lparr>showOrbits := b\<rparr>)) = b"
    by (simp add: Block_panel_def ControlPanel_def)
next
  assume a: "list_all2 same_but_flag evs evs'"
  from same_flag_run [OF a, of pf 1 "(0, 1)"]
  have e: "cur_speed pf 1 evs = cur_speed pf 1 evs'"
    "last_frame pf 1 (0, 1) evs = last_frame pf 1 (0, 1) evs'" "frames evs = frames evs'"
    by simp_all
  show i: "insts (view_run pf evs Block_init) = insts (view_run pf evs' Block_init)"
    by (simp add: reachable_form e)
  show "Block_canvas (react (view_run pf evs Block_init)) =
            Block_canvas (react (view_run pf evs' Block_init))"
    by (simp add: reachable_form e Block_canvas_def)
  show "orbit_lines (insts (view_run pf evs Block_init)) =
            orbit_lines (insts (view_run pf evs' Block_init))"
    by (simp only: i)
qed

theorem orbit_flag_inert_witness:
  "list_all2 same_but_flag [CheckboxChange True, Frame 2, CheckboxChange True]
      [CheckboxChange False, Frame 2, CheckboxChange False]
   \<and> orbit_lines (insts (view_run (\<lambda>s. 1) [CheckboxChange True, Frame 2, CheckboxChange True] Block_init)) =
     orbit_lines (insts (view_run (\<lambda>s. 1) [CheckboxChange False, Frame 2, CheckboxChange False] Block_init))
   \<and> showOrbits (react (view_run (\<lambda>s. 1) [CheckboxChange True, Frame 2, CheckboxChange True] Block_init))
   \<and> \<not> showOrbits (react (view_run (\<lambda>s. 1) [CheckboxChange False, Frame 2, CheckboxChange False] Block_init))"
  using orbit_flag_inert [where evs = "[CheckboxChange True, Frame 2, CheckboxChange True]"
      and evs' = "[CheckboxChange False, Frame 2, CheckboxChange False]" and pf = "\<lambda>s. 1"]
  by (simp add: reachable_form)

text \<open>
  C4. Every render pass yields exactly eight planets and one sun, the planets made from
  the rows of \<open>planetData\<close> in the table's order Mercury, Venus, Earth, Mars, Jupiter,
  Saturn, Uranus, Neptune (only the speed is scaled by the multiplier), and the mounted
  scene holds the same nine bodies in that order after every run. \<open>planetData\<close> is a
  constant: no operation of the component writes to it.
\<close>

theorem render_pass_bodies:
  "planets_of (concat (map leaves (Block_canvas st))) =
     map (\<lambda>p. p\<lparr>speed := speed p * animationSpeed st\<rparr>) planetData
   \<and> map name (planets_of (concat (map leaves (Block_canvas st)))) =
     [''Mercury'', ''Venus'', ''Earth'', ''Mars'', ''Jupiter'', ''Saturn'', ''Uranus'', ''Neptune'']
   \<and> length (planets_of (concat (map leaves (Block_canvas st)))) = 8
   \<and> length (filter (\<lambda>e. e = SunE) (concat (map leaves (Block_canvas st)))) = 1
   \<and> map fst (spin_angles (insts (view_run pf evs Block_init))) =
     [''Sun'', ''Mercury'', ''Venus'', ''Earth'', ''Mars'', ''Jupiter'', ''Saturn'', ''Uranus'', ''Neptune'']"
proof (intro conjI)
  show "planets_of (concat (map leaves (Block_canvas st))) =
     map (\<lambda>p. p\<lparr>speed := speed p * animationSpeed st\<rparr>) planetData"
    by (simp add: Block_canvas_def planetData_def planet_fragment_def)
  show "map name (planets_of (concat (map leaves (Block_canvas st)))) =
     [''Mercury'', ''Venus'', ''Earth'', ''Mars'', ''Jupiter'', ''Saturn'', ''Uranus'', ''Neptune'']"
    by (simp add: Block_canvas_def planetData_def planet_fragment_def)
  show "length (planets_of (concat (map leaves (Block_canvas st)))) = 8"
    by (simp add: Block_canvas_def planetData_def planet_fragment_def)
  show "length (filter (\<lambda>e. e = SunE) (concat (map leaves (Block_canvas st)))) = 1"
    by (simp add: Block_canvas_def planetData_def planet_fragment_def)
  show "map fst (spin_angles (insts (view_run pf evs Block_init))) =
     [''Sun'', ''Mercury'', ''Venus'', ''Earth'', ''Mars'', ''Jupiter'', ''Saturn'', ''Uranus'', ''Neptune'']"
    by (simp add: reachable_form spin_form planetData_def)
qed

text \<open>
  C5. Every render pass holds exactly one SaturnRings element. It is in the fragment keyed
  \<open>Saturn\<close>, it is given the distance 9 of the one row of the table named Saturn, and the
  fragments of the other planets hold no ring; the mounted scene has exactly one ring
  instance after every run.
\<close>

theorem one_ring_for_saturn:
  "rings_of (concat (map leaves (Block_canvas st))) = [9]
   \<and> fragment_rings (Block_canvas st) =
       map (\<lambda>p. (name p, if name p = ''Saturn'' then [distance p] else [])) planetData
   \<and> fragment_rings (Block_canvas st) =
       [(''Mercury'', []), (''Venus'', []), (''Earth'', []), (''Mars'', []), (''Jupiter'', []),
        (''Saturn'', [9]), (''Uranus'', []), (''Neptune'', [])]
   \<and> map distance (filter (\<lambda>p. name p = ''Saturn'') planetData) = [9]
   \<and> length (ring_angles (insts (view_run pf evs Block_init))) = 1"
proof (intro conjI)
  show "rings_of (concat (map leaves (Block_canvas st))) = [9]"
    by (simp add: Block_canvas_def planetData_def planet_fragment_def)
  show "fragment_rings (Block_canvas st) =
       map (\<lambda>p. (name p, if name p = ''Saturn'' then [distance p] else [])) planetData"
    by (simp add: Block_canvas_def planetData_def planet_fragment_def)
  show "fragment_rings (Block_canvas st) =
       [(''Mercury'', []), (''Venus'', []), (''Earth'', []), (''Mars'', []), (''Jupiter'', []),
        (''Saturn'', [9]), (''Uranus'', []), (''Neptune'', [])]"
    by (simp add: Block_canvas_def planetData_def planet_fragment_def)
  show "map distance (filter (\<lambda>p. name p = ''Saturn'') planetData) = [9]"
    by (simp add: planetData_def)
  show "length (ring_angles (insts (view_run pf evs Block_init))) = 1"
    by (simp add: reachable_form ring_form)
qed

text \<open>
  C6. The change handler of the range input passes \<^verbatim>\<open>parseFloat(e.target.value)\<close> to the
  callback it was given, unchanged, and in Block that callback stores it: after a slider
  change the multiplier is exactly the parsed value of the input, with no clamping and
  no rounding by the handler, whatever the state before, and the panel shows that value.
  The range input itself is declared with minimum 0, maximum 5 and step 0.1.
\<close>

theorem slider_sets_speed:
  "range_onChange (ControlPanel pf a setSpeed b setShow) v s = setSpeed (pf v) s
   \<and> animationSpeed (react (view_step pf (SliderChange v) st)) = pf v
   \<and> showOrbits (react (view_step pf (SliderChange v) st)) = showOrbits (react st)
   \<and> range_value (Block_panel pf (react (view_step pf (SliderChange v) st))) = pf v
   \<and> range_min (Block_panel pf (react st)) = ''0''
   \<and> range_max (Block_panel pf (react st)) = ''5''
   \<and> range_step (Block_panel pf (react st)) = ''0.1''"
  by (simp add: ControlPanel_def Block_panel_def setAnimationSpeed_def rerender_def)

text \<open>
  C7. After any run of events from mounting, the spin angle (the rotation about the y
  axis of the body's own mesh) is the number of frames of the run times 0.02 for every
  planet and times 0.01 for the Sun, starting from 0 at mount: it does not depend on the
  elapsed times the frames carried nor on the slider changes between them. Continuing a
  run adds the number of its frames times the same constant to the angle reached. One
  more frame counts once, a slider change not at all.
\<close>

theorem spin_per_frame:
  "spin_angles (insts (view_run pf evs Block_init)) =
     (''Sun'', Some (real (frames evs) * 0.01))
     # map (\<lambda>p. (name p, Some (real (frames evs) * 0.02))) planetData
   \<and> spin_angles (insts (view_run pf (evs @ evs') Block_init)) =
     (''Sun'', Some (real (frames evs) * 0.01 + real (frames evs') * 0.01))
     # map (\<lambda>p. (name p, Some (real (frames evs) * 0.02 + real (frames evs') * 0.02))) planetData
   \<and> frames (evs @ [Frame t]) = frames evs + 1
   \<and> frames (evs @ [SliderChange v]) = frames evs"
  by (simp add: reachable_form spin_form frames_def algebra_simps)

text \<open>
  C8. At a frame with elapsed time \<open>t\<close> the ring's pivot is rotated to \<open>t * 0.004\<close>,
  whatever the multiplier and the events before, while Saturn's own orbital angle at
  that frame is \<open>t * 0.004\<close> times the multiplier.
\<close>

theorem ring_angle_fixed:
  "ring_angles (insts (view_run pf (evs @ [Frame t]) Block_init)) = [Some (t * 0.004)]
   \<and> map_of (orbital_angles (insts (view_run pf (evs @ [Frame t]) Block_init))) ''Saturn'' =
       Some (Some (t * 0.004 * animationSpeed (react (view_run pf evs Block_init))))"
proof
  show "ring_angles (insts (view_run pf (evs @ [Frame t]) Block_init)) = [Some (t * 0.004)]"
    by (simp add: reachable_form ring_form last_frame_append)
  show "map_of (orbital_angles (insts (view_run pf (evs @ [Frame t]) Block_init))) ''Saturn'' =
       Some (Some (t * 0.004 * animationSpeed (react (view_run pf evs Block_init))))"
    by (simp add: frame_after_run speed_after_run planetData_def)
qed

text \<open>
  C9. The orbit line of every planet is, after any run of events, the mesh that was
  rendered: at the origin of the planet's group, rotated by \<open>pi / 2\<close> about x, a ring from
  \<open>distance - 0.01\<close> to \<open>distance + 0.01\<close>. No frame changes it. A frame changes exactly
  the y rotation of the pivot group and of the body mesh.
\<close>

theorem orbit_line_static:
  "orbit_lines (insts (view_run pf evs Block_init)) =
     map (\<lambda>p. (name p, Some (Mesh None (0, 0, 0) (pi / 2, 0, 0)
                 (ringGeometry (distance p - 0.01) (distance p + 0.01) 64)
                 (meshBasicMaterial ''#333333'' True (Some 0.3) None) []))) planetData
   \<and> orbit_lines (insts (view_step pf (Frame t) (view_run pf evs Block_init))) =
       orbit_lines (insts (view_run pf evs Block_init))
   \<and> Planet_useFrame p t (update_ref meshRef (\<lambda>y. s) (update_ref planetRef (\<lambda>y. a) (Planet q))) =
       update_ref meshRef (\<lambda>y. s + 0.02) (update_ref planetRef (\<lambda>y. t * speed p) (Planet q))"
proof (intro conjI)
  show "orbit_lines (insts (view_run pf evs Block_init)) =
     map (\<lambda>p. (name p, Some (Mesh None (0, 0, 0) (pi / 2, 0, 0)
                 (ringGeometry (distance p - 0.01) (distance p + 0.01) 64)
                 (meshBasicMaterial ''#333333'' True (Some 0.3) None) []))) planetData"
    by (simp add: reachable_form orbit_lines_form)
  show "orbit_lines (insts (view_step pf (Frame t) (view_run pf evs Block_init))) =
       orbit_lines (insts (view_run pf evs Block_init))"
    by (simp add: reachable_form orbit_lines_form frame_form)
  show "Planet_useFrame p t (update_ref meshRef (\<lambda>y. s) (update_ref planetRef (\<lambda>y. a) (Planet q))) =
       update_ref meshRef (\<lambda>y. s + 0.02) (update_ref planetRef (\<lambda>y. t * speed p) (Planet q))"
    by (simp add: Planet_useFrame_def Planet_def)
qed

text \<open>
  C10. The orbital angle is recomputed from the elapsed time at each frame. With the
  multiplier \<open>m\<close> a frame at time \<open>t\<close> sets it to \<open>t * speed * m\<close>; a slider change to
  \<open>m'\<close> leaves the objects as they are until the next frame, which, at the same elapsed
  time \<open>t\<close>, sets the angle to \<open>t * speed * m'\<close>. When the new multiplier is 0, the next
  frame puts every planet at angle 0, whatever its elapsed time.
\<close>

theorem multiplier_jump:
  "orbital_angles (insts (view_run pf (evs @ [Frame t]) Block_init)) =
     map (\<lambda>p. (name p, Some (t * speed p * animationSpeed (react (view_run pf evs Block_init)))))
       planetData
   \<and> orbital_angles (insts (view_run pf (evs @ [Frame t, SliderChange v]) Block_init)) =
     map (\<lambda>p. (name p, Some (t * speed p * animationSpeed (react (view_run pf evs Block_init)))))
       planetData
   \<and> orbital_angles (insts (view_run pf (evs @ [Frame t, SliderChange v, Frame t]) Block_init)) =
     map (\<lambda>p. (name p, Some (t * speed p * pf v))) planetData
   \<and> (pf v = 0 \<longrightarrow>
        orbital_angles (insts (view_run pf (evs @ [Frame t, SliderChange v, Frame t']) Block_init)) =
          map (\<lambda>p. (name p, Some 0)) planetData)"
  by (simp add: reachable_form orbital_form last_frame_append cur_speed_append mult.assoc)

theorem multiplier_jump_witness:
  "(\<lambda>s. if s = ''0'' then 0 else 2 :: real) ''0'' = 0
   \<and> orbital_angles (insts (view_run (\<lambda>s. if s = ''0'' then 0 else 2)
        ([SliderChange ''2''] @ [Frame 7]) Block_init)) =
      [(''Mercury'', Some (7 / 25)), (''Venus'', Some (21 / 100)), (''Earth'', Some (7 / 50)),
       (''Mars'', Some (14 / 125)), (''Jupiter'', Some (7 / 100)), (''Saturn'', Some (7 / 125)),
       (''Uranus'', Some (21 / 500)), (''Neptune'', Some (7 / 250))]
   \<and> orbital_angles (insts (view_run (\<lambda>s. if s = ''0'' then 0 else 2)
        ([SliderChange ''2''] @ [Frame 7, SliderChange ''0'', Frame 8]) Block_init)) =
      [(''Mercury'', Some 0), (''Venus'', Some 0), (''Earth'', Some 0), (''Mars'', Some 0),
       (''Jupiter'', Some 0), (''Saturn'', Some 0), (''Uranus'', Some 0), (''Neptune'', Some 0)]"
  using multiplier_jump [where pf = "\<lambda>s. if s = ''0'' then 0 else 2" and v = "''0''"
      and evs = "[SliderChange ''2'']" and t = 7 and t' = 8]
  by (simp add: speed_after_run planetData_def)

end
